theory Spec2Isabelle
  imports Main
begin

section \<open>Python values\<close>

text \<open>
  The payloads are JSON objects read with \<open>dict.get\<close>. A key of such an object is
  absent, present with the value \<open>null\<close> (Python's \<open>None\<close>), or present with a value
  of the type the GraphQL schema gives it. The three cases are kept apart because the
  source treats them differently: \<open>d.get(k, default)\<close> yields the default only for an
  absent key, and a method call on \<open>None\<close> raises.
\<close>

datatype 'a field = Absent | Null | Val 'a

datatype py_error = AttributeError | KeyError | TypeError | ValueError | OSError

text \<open>Truthiness of a string-valued entry: \<open>None\<close> and the empty string are falsy.\<close>

fun truthy :: "string field \<Rightarrow> bool" where
  "truthy Absent = False"
| "truthy Null = False"
| "truthy (Val s) = (s \<noteq> [])"

subsection \<open>Strings\<close>

text \<open>
  A character is a code point below 256, so a string is a Python string of such code
  points. \<open>lower\<close> is \<open>str.lower\<close>: it moves the letters \<open>A\<close> to \<open>Z\<close> and the
  upper-case letters from \<open>0xC0\<close> to \<open>0xDE\<close> (all but the sign \<open>0xD7\<close>) up by \<open>0x20\<close>.
  \<open>strip\<close> is \<open>str.strip\<close> with no argument: it removes the characters for which
  \<open>str.isspace\<close> holds, which below 256 are \<open>0x09\<close> to \<open>0x0D\<close>, \<open>0x1C\<close> to \<open>0x20\<close>,
  \<open>0x85\<close> and \<open>0xA0\<close>. \<open>contains w s\<close> is Python's \<open>w in s\<close> on strings.
\<close>

definition lower_char :: "char \<Rightarrow> char" where
  "lower_char c =
     (case map_of
        (zip (''ABCDEFGHIJKLMNOPQRSTUVWXYZ'' @
              [CHR 0xC0, CHR 0xC1, CHR 0xC2, CHR 0xC3, CHR 0xC4, CHR 0xC5, CHR 0xC6, CHR 0xC7,
               CHR 0xC8, CHR 0xC9, CHR 0xCA, CHR 0xCB, CHR 0xCC, CHR 0xCD, CHR 0xCE, CHR 0xCF,
               CHR 0xD0, CHR 0xD1, CHR 0xD2, CHR 0xD3, CHR 0xD4, CHR 0xD5, CHR 0xD6, CHR 0xD8,
               CHR 0xD9, CHR 0xDA, CHR 0xDB, CHR 0xDC, CHR 0xDD, CHR 0xDE])
             (''abcdefghijklmnopqrstuvwxyz'' @
              [CHR 0xE0, CHR 0xE1, CHR 0xE2, CHR 0xE3, CHR 0xE4, CHR 0xE5, CHR 0xE6, CHR 0xE7,
               CHR 0xE8, CHR 0xE9, CHR 0xEA, CHR 0xEB, CHR 0xEC, CHR 0xED, CHR 0xEE, CHR 0xEF,
               CHR 0xF0, CHR 0xF1, CHR 0xF2, CHR 0xF3, CHR 0xF4, CHR 0xF5, CHR 0xF6, CHR 0xF8,
               CHR 0xF9, CHR 0xFA, CHR 0xFB, CHR 0xFC, CHR 0xFD, CHR 0xFE])) c of
        Some d \<Rightarrow> d
      | None \<Rightarrow> c)"

definition lower :: "string \<Rightarrow> string" where
  "lower s = map lower_char s"

definition is_space :: "char \<Rightarrow> bool" where
  "is_space c =
     (c \<in> set [CHR 0x09, CHR 0x0A, CHR 0x0B, CHR 0x0C, CHR 0x0D,
                CHR 0x1C, CHR 0x1D, CHR 0x1E, CHR 0x1F, CHR 0x20,
                CHR 0x85, CHR 0xA0])"

definition strip :: "string \<Rightarrow> string" where
  "strip s = rev (dropWhile is_space (rev (dropWhile is_space s)))"

fun starts_with :: "string \<Rightarrow> string \<Rightarrow> bool" where
  "starts_with [] s = True"
| "starts_with (c # w) [] = False"
| "starts_with (c # w) (d # s) = (c = d \<and> starts_with w s)"

fun contains :: "string \<Rightarrow> string \<Rightarrow> bool" where
  "contains w [] = (w = [])"
| "contains w (c # s) = (starts_with w (c # s) \<or> contains w s)"

subsection \<open>The sign of \<open>float(s)\<close>\<close>

text \<open>
  The source compares \<open>float(amount)\<close> with 0 and nothing else. For a plain decimal
  integer literal (an optional sign, then one or more digits: the encoding of amounts)
  the outcome is computed here: the conversion succeeds, and the value is greater
  than 0 exactly when there is no minus sign and some digit is not \<open>0\<close>. For every other
  string the outcome is that of Python's builtin, taken as the parameter \<open>flt\<close>:
  \<open>None\<close> when \<open>float(s)\<close> raises, otherwise whether the value is greater than 0.
\<close>

definition is_digit :: "char \<Rightarrow> bool" where
  "is_digit c = (c \<in> set ''0123456789'')"

definition all_digits :: "string \<Rightarrow> bool" where
  "all_digits s = (s \<noteq> [] \<and> list_all is_digit s)"

fun is_int_literal :: "string \<Rightarrow> bool" where
  "is_int_literal [] = False"
| "is_int_literal (c # s) =
     (if c = CHR ''+'' \<or> c = CHR ''-'' then all_digits s else all_digits (c # s))"

fun int_literal_positive :: "string \<Rightarrow> bool" where
  "int_literal_positive [] = False"
| "int_literal_positive (c # s) =
     (if c = CHR ''-'' then False else list_ex (\<lambda>d. d \<noteq> CHR ''0'' \<and> d \<noteq> CHR ''+'') (c # s))"

definition float_gt0 :: "(string \<Rightarrow> bool option) \<Rightarrow> string \<Rightarrow> bool option" where
  "float_gt0 flt s = (if is_int_literal s then Some (int_literal_positive s) else flt s)"

section \<open>Votes\<close>

record voter =
  voter_address :: "string field"
  voter_name :: "string field"

record block =
  block_timestamp :: "string field"
  block_number :: "string field"

record vote =
  vote_id :: "string field"
  vote_type :: "string field"
  vote_amount :: "string field"
  vote_reason :: "string field"
  vote_voter :: "voter field"
  vote_block :: "block field"
  vote_txHash :: "string field"
  vote_createdAt :: "string field"

subsection \<open>\<open>FastDAOFetcher.normalize_vote_type\<close>\<close>

definition type_mappings :: "(string \<times> string) list" where
  "type_mappings =
     [(''for'', ''For''), (''yes'', ''For''), (''support'', ''For''), (''approve'', ''For''),
      (''in_favor'', ''For''), (''infavor'', ''For''), (''aye'', ''For''), (''1'', ''For''),
      (''true'', ''For''),
      (''against'', ''Against''), (''no'', ''Against''), (''oppose'', ''Against''),
      (''nay'', ''Against''), (''0'', ''Against''), (''false'', ''Against''),
      (''abstain'', ''Abstain''), (''abstention'', ''Abstain''), (''present'', ''Abstain''),
      (''2'', ''Abstain'')]"

text \<open>
  \<open>vote.get('type', '').strip()\<close>, then the table lookup on the lower-cased string:
  \<open>Inr (Some r)\<close> when the table has it, \<open>Inr None\<close> when the string is empty or unknown.
\<close>

definition type_lookup :: "string field \<Rightarrow> py_error + string option" where
  "type_lookup t =
     (case t of
        Null \<Rightarrow> Inl AttributeError
      | Absent \<Rightarrow> Inr None
      | Val s \<Rightarrow>
          (let vote_type = strip s in
           if vote_type \<noteq> [] then Inr (map_of type_mappings (lower vote_type)) else Inr None))"

text \<open>
  \<open>amount = float(amount) if amount else 0\<close> inside \<open>try\<close>, a failed conversion giving 0,
  followed by the test \<open>amount > 0\<close>.
\<close>

definition amount_positive :: "(string \<Rightarrow> bool option) \<Rightarrow> string field \<Rightarrow> bool" where
  "amount_positive flt a =
     (case a of
        Val s \<Rightarrow> (if s \<noteq> [] then (case float_gt0 flt s of None \<Rightarrow> False | Some b \<Rightarrow> b) else False)
      | _ \<Rightarrow> False)"

definition reason_analysis :: "string \<Rightarrow> string option" where
  "reason_analysis reason =
     (if reason \<noteq> [] then
        (if list_ex (\<lambda>w. contains w reason)
              [''support'', ''favor'', ''yes'', ''approve'', ''agree'', ''for''] then Some ''For''
         else if list_ex (\<lambda>w. contains w reason)
              [''against'', ''oppose'', ''no'', ''disagree'', ''reject''] then Some ''Against''
         else if list_ex (\<lambda>w. contains w reason)
              [''abstain'', ''neutral'', ''present''] then Some ''Abstain''
         else None)
      else None)"

definition normalize_vote_type :: "(string \<Rightarrow> bool option) \<Rightarrow> vote \<Rightarrow> py_error + string" where
  "normalize_vote_type flt v =
     (case type_lookup (vote_type v) of
        Inl e \<Rightarrow> Inl e
      | Inr (Some r) \<Rightarrow> Inr r
      | Inr None \<Rightarrow>
          (if amount_positive flt (vote_amount v) then Inr ''For''
           else
             (case vote_reason v of
                Null \<Rightarrow> Inl AttributeError
              | r \<Rightarrow>
                  (case reason_analysis (lower (case r of Val s \<Rightarrow> s | _ \<Rightarrow> [])) of
                     Some out \<Rightarrow> Inr out
                   | None \<Rightarrow> if truthy (vote_txHash v) then Inr ''Voted'' else Inr ''Unknown''))))"

section \<open>Delegates, proposals and the checkpoint\<close>

record account =
  acc_address :: "string field"
  acc_name :: "string field"
  acc_ens :: "string field"

record statement =
  stmt_statement :: "string field"
  stmt_isSeekingDelegation :: "bool field"

record delegate =
  d_account :: "account field"
  d_votesCount :: "string field"
  d_delegatorsCount :: "int field"
  d_statement :: "statement field"

record metadata =
  md_title :: "string field"
  md_description :: "string field"

record proposal =
  p_id :: "string field"
  p_onchainId :: "string field"
  p_metadata :: "metadata field"
  p_proposer :: "account field"
  p_status :: "string field"
  p_start :: "block field"
  p_end :: "block field"

text \<open>
  \<open>checkpoint_data\<close>: the keys are read with \<open>.get\<close>, so an absent list is the empty
  list and an absent cursor is \<open>None\<close>; \<open>delegates_complete\<close> exists only once
  \<open>save_checkpoint\<close> has written it. \<open>votes_cache\<close> is keyed by the proposal id.
\<close>

record checkpoint =
  ck_delegates :: "delegate list"
  ck_proposals :: "proposal list"
  ck_last_delegate_cursor :: "string option"
  ck_delegates_complete :: "bool option"
  ck_votes_cache :: "(string \<times> vote list) list"
  ck_processed_proposals :: "string list"

text \<open>
  The part of a \<open>FastDAOFetcher\<close> that pagination reads and writes: the checkpoint in
  memory, the checkpoint file (\<open>None\<close>: no file), the per-proposal vote cursors of the
  vote checkpoint file, the request counter of the API client, and the two settings
  \<open>force_refresh_votes\<close> and \<open>vote_batch_size\<close>. Writing a file is taken to succeed,
  and what \<open>json.dump\<close> writes is what \<open>json.load\<close> reads back.
\<close>

record fetcher =
  checkpoint_data :: checkpoint
  checkpoint_file :: "checkpoint option"
  vote_checkpoint_file :: "(string \<times> string option) list"
  request_count :: nat
  force_refresh_votes :: bool
  vote_batch_size :: nat

subsection \<open>\<open>FastDAOFetcher.save_checkpoint\<close>\<close>

definition save_checkpoint ::
  "delegate list option \<Rightarrow> proposal list option \<Rightarrow> string option \<Rightarrow>
   (string \<times> vote list) list option \<Rightarrow> string list option \<Rightarrow> fetcher \<Rightarrow> fetcher" where
  "save_checkpoint delegates proposals cursor votes_cache processed_proposals f =
     (let c0 = checkpoint_data f;
          c1 = (case delegates of Some ds \<Rightarrow> c0\<lparr>ck_delegates := ds\<rparr> | None \<Rightarrow> c0);
          c2 = (case proposals of Some ps \<Rightarrow> c1\<lparr>ck_proposals := ps\<rparr> | None \<Rightarrow> c1);
          c3 = (case cursor of
                  Some c \<Rightarrow> c2\<lparr>ck_last_delegate_cursor := Some c, ck_delegates_complete := Some False\<rparr>
                | None \<Rightarrow> c2);
          c4 = (case votes_cache of Some vc \<Rightarrow> c3\<lparr>ck_votes_cache := vc\<rparr> | None \<Rightarrow> c3);
          c5 = (case processed_proposals of
                  Some pp \<Rightarrow> c4\<lparr>ck_processed_proposals := pp\<rparr>
                | None \<Rightarrow> c4)
      in f\<lparr>checkpoint_data := c5, checkpoint_file := Some c5\<rparr>)"

section \<open>The request client as seen by the paginators\<close>

text \<open>
  What \<open>make_request_optimized\<close> hands back for a page query: \<open>None\<close> once its retries
  are used up, a dictionary without a usable \<open>data\<close> entry, or a page with its
  \<open>nodes\<close> and the \<open>lastCursor\<close> of its \<open>pageInfo\<close> (absent entries read as the empty list
  and \<open>None\<close>). The answer of the remote service depends on the number of requests made
  so far and on the cursor sent.
\<close>

datatype 'a response = NoResponse | NoData | Data "'a list" "string option"

type_synonym 'a server = "nat \<Rightarrow> string option \<Rightarrow> 'a response"

definition nonempty :: "string option \<Rightarrow> bool" where
  "nonempty c = (case c of None \<Rightarrow> False | Some s \<Rightarrow> s \<noteq> [])"

text \<open>\<open>afterCursor\<close> is put into the request only when \<open>after_cursor\<close> is truthy.\<close>

definition page_input :: "string option \<Rightarrow> string option" where
  "page_input after_cursor = (if nonempty after_cursor then after_cursor else None)"

text \<open>The local variables of a pagination loop.\<close>

record 'a paging =
  all_items :: "'a list"
  after_cursor :: "string option"
  page_count :: nat
  consecutive_failures :: nat

datatype 'a control = Continue 'a | Break 'a | Raise py_error

text \<open>How a loop was left: by \<open>break\<close>, or because its \<open>while\<close> condition became false.\<close>

datatype exit = EndOfPagination | LoopConditionFalse

section \<open>Delegate pagination\<close>

subsection \<open>\<open>FastDAOFetcher.validate_delegate_data\<close>\<close>

text \<open>
  Any exception inside is caught and gives \<open>False\<close>: an \<open>account\<close> that is \<open>null\<close>, a
  \<open>votesCount\<close> that \<open>float\<close> rejects, a count that is \<open>null\<close>. The conversions it stores
  back into the delegate do not change which number the entry denotes and are not
  modelled as a change of the record.
\<close>

definition validate_delegate_data :: "(string \<Rightarrow> bool option) \<Rightarrow> delegate \<Rightarrow> bool" where
  "validate_delegate_data flt d =
     (case d_account d of
        Null \<Rightarrow> False
      | Absent \<Rightarrow> False
      | Val a \<Rightarrow>
          if \<not> truthy (acc_address a) then False
          else
            (case d_votesCount d of
               Null \<Rightarrow> False
             | Val s \<Rightarrow> (if float_gt0 flt s = None then False else d_delegatorsCount d \<noteq> Null)
             | Absent \<Rightarrow> d_delegatorsCount d \<noteq> Null))"

text \<open>\<open>d['account']['address'].lower()\<close>\<close>

definition address_lower :: "delegate \<Rightarrow> py_error + string" where
  "address_lower d =
     (case d_account d of
        Absent \<Rightarrow> Inl KeyError
      | Null \<Rightarrow> Inl TypeError
      | Val a \<Rightarrow>
          (case acc_address a of
             Absent \<Rightarrow> Inl KeyError
           | Null \<Rightarrow> Inl AttributeError
           | Val s \<Rightarrow> Inr (lower s)))"

text \<open>The set comprehension over a list of delegates: the first failing element raises.\<close>

fun addresses :: "delegate list \<Rightarrow> py_error + string list" where
  "addresses [] = Inr []"
| "addresses (d # ds) =
     (case address_lower d of
        Inl e \<Rightarrow> Inl e
      | Inr a \<Rightarrow> (case addresses ds of Inl e \<Rightarrow> Inl e | Inr as \<Rightarrow> Inr (a # as)))"

text \<open>
  Lines 444 to 459: keep the valid delegates of the page, drop those whose lower-cased
  address is already accumulated, append the rest.
\<close>

definition merge_page ::
  "(string \<Rightarrow> bool option) \<Rightarrow> delegate list \<Rightarrow> delegate list \<Rightarrow> py_error + delegate list" where
  "merge_page flt all_delegates delegates_batch =
     (let valid_delegates = filter (validate_delegate_data flt) delegates_batch in
      case addresses valid_delegates of
        Inl e \<Rightarrow> Inl e
      | Inr new_addresses \<Rightarrow>
          (case addresses all_delegates of
             Inl e \<Rightarrow> Inl e
           | Inr existing_addresses \<Rightarrow>
               (let duplicates = set new_addresses \<inter> set existing_addresses;
                    valid_delegates' =
                      (if duplicates \<noteq> {} then
                         filter (\<lambda>d. case address_lower d of
                                        Inr a \<Rightarrow> a \<notin> set existing_addresses
                                      | Inl e \<Rightarrow> False) valid_delegates
                       else valid_delegates)
                in Inr (all_delegates @ valid_delegates'))))"

subsection \<open>\<open>FastDAOFetcher.get_all_delegates_optimized\<close>\<close>

text \<open>
  One pass through the body of the \<open>while\<close> loop. \<open>due n\<close> tells whether more than 300
  seconds have gone by since the last timed checkpoint when request \<open>n\<close> is about to be
  made. Sleeping and printing are left out.
\<close>

definition delegates_iteration ::
  "(string \<Rightarrow> bool option) \<Rightarrow> delegate server \<Rightarrow> (nat \<Rightarrow> bool) \<Rightarrow>
   delegate paging \<times> fetcher \<Rightarrow> (delegate paging \<times> fetcher) control" where
  "delegates_iteration flt srv due s =
     (let l = fst s; f0 = snd s;
          f1 = (if due (request_count f0)
                then save_checkpoint (Some (all_items l)) None (after_cursor l) None None f0
                else f0);
          result = srv (request_count f1) (page_input (after_cursor l));
          f2 = f1\<lparr>request_count := request_count f1 + 1\<rparr>
      in case result of
           NoResponse \<Rightarrow>
             Continue (l\<lparr>consecutive_failures := consecutive_failures l + 1\<rparr>,
                       save_checkpoint (Some (all_items l)) None (after_cursor l) None None f2)
         | NoData \<Rightarrow>
             Continue (l\<lparr>consecutive_failures := consecutive_failures l + 1\<rparr>,
                       save_checkpoint (Some (all_items l)) None (after_cursor l) None None f2)
         | Data delegates_batch new_cursor \<Rightarrow>
             if delegates_batch = [] then
               (if nonempty new_cursor \<and> new_cursor \<noteq> after_cursor l
                then Continue (l\<lparr>consecutive_failures := consecutive_failures l + 1,
                                  after_cursor := new_cursor,
                                  page_count := page_count l + 1\<rparr>, f2)
                else Break (l\<lparr>consecutive_failures := consecutive_failures l + 1\<rparr>, f2))
             else
               (case merge_page flt (all_items l) delegates_batch of
                  Inl e \<Rightarrow> Raise e
                | Inr all_delegates \<Rightarrow>
                    (let l' = l\<lparr>consecutive_failures := 0, all_items := all_delegates,
                                 page_count := page_count l + 1\<rparr>
                     in if \<not> nonempty new_cursor \<or> new_cursor = after_cursor l
                        then Break (l', f2)
                        else Continue (l'\<lparr>after_cursor := new_cursor\<rparr>, f2))))"

text \<open>
  \<open>while consecutive_failures < max_consecutive_failures\<close>, with
  \<open>max_consecutive_failures = 15\<close>. The loop can go on for ever (a service that keeps
  handing out fresh cursors), so it is run on fuel: \<open>None\<close> means that the fuel did not
  suffice.
\<close>

fun delegates_loop ::
  "nat \<Rightarrow> (string \<Rightarrow> bool option) \<Rightarrow> delegate server \<Rightarrow> (nat \<Rightarrow> bool) \<Rightarrow>
   delegate paging \<times> fetcher \<Rightarrow> (py_error + exit \<times> delegate paging \<times> fetcher) option" where
  "delegates_loop 0 flt srv due s = None"
| "delegates_loop (Suc n) flt srv due s =
     (if consecutive_failures (fst s) < 15 then
        (case delegates_iteration flt srv due s of
           Continue s' \<Rightarrow> delegates_loop n flt srv due s'
         | Break s' \<Rightarrow> Some (Inr (EndOfPagination, s'))
         | Raise e \<Rightarrow> Some (Inl e))
      else Some (Inr (LoopConditionFalse, s)))"

text \<open>The locals before the loop: resume from the checkpoint, or start afresh.\<close>

definition delegates_start :: "checkpoint \<Rightarrow> delegate paging" where
  "delegates_start ck =
     (let existing_delegates = ck_delegates ck; start_cursor = ck_last_delegate_cursor ck in
      if existing_delegates \<noteq> [] \<and> nonempty start_cursor
      then \<lparr>all_items = existing_delegates, after_cursor = start_cursor,
            page_count = 0, consecutive_failures = 0\<rparr>
      else \<lparr>all_items = [], after_cursor = None, page_count = 0, consecutive_failures = 0\<rparr>)"

text \<open>
  The whole method: the loop, then \<open>save_checkpoint(delegates=all_delegates, cursor=None)\<close>
  and the return of \<open>all_delegates\<close>. The way the loop was left is kept beside the
  returned list.
\<close>

definition get_all_delegates_optimized ::
  "nat \<Rightarrow> (string \<Rightarrow> bool option) \<Rightarrow> delegate server \<Rightarrow> (nat \<Rightarrow> bool) \<Rightarrow> fetcher \<Rightarrow>
   (py_error + exit \<times> delegate list \<times> fetcher) option" where
  "get_all_delegates_optimized fuel flt srv due f =
     (case delegates_loop fuel flt srv due (delegates_start (checkpoint_data f), f) of
        None \<Rightarrow> None
      | Some (Inl e) \<Rightarrow> Some (Inl e)
      | Some (Inr (ex, l, f')) \<Rightarrow>
          Some (Inr (ex, all_items l, save_checkpoint (Some (all_items l)) None None None None f')))"

text \<open>What a run returned, if it returned, and the checkpoint file it left behind.\<close>

definition returned :: "(py_error + exit \<times> 'a list \<times> fetcher) option \<Rightarrow> (exit \<times> 'a list) option" where
  "returned r = (case r of Some (Inr (ex, xs, f)) \<Rightarrow> Some (ex, xs) | _ \<Rightarrow> None)"

definition left_on_disk :: "(py_error + exit \<times> 'a list \<times> fetcher) option \<Rightarrow> checkpoint option" where
  "left_on_disk r = (case r of Some (Inr (ex, xs, f)) \<Rightarrow> checkpoint_file f | _ \<Rightarrow> None)"


subsection \<open>Sequences of page merges\<close>

text \<open>The accumulation after the pages of a list were merged one after the other.\<close>

fun merge_pages ::
  "(string \<Rightarrow> bool option) \<Rightarrow> delegate list \<Rightarrow> delegate list list \<Rightarrow> py_error + delegate list" where
  "merge_pages flt all_delegates [] = Inr all_delegates"
| "merge_pages flt all_delegates (batch # batches) =
     (case merge_page flt all_delegates batch of
        Inl e \<Rightarrow> Inl e
      | Inr all_delegates' \<Rightarrow> merge_pages flt all_delegates' batches)"

text \<open>Every record has an address, and no lower-cased address occurs twice.\<close>

definition unique_addresses :: "delegate list \<Rightarrow> bool" where
  "unique_addresses ds = (case addresses ds of Inr as \<Rightarrow> distinct as | Inl e \<Rightarrow> False)"

subsection \<open>Starting a fetcher\<close>

text \<open>
  The state that \<open>load_checkpoint\<close> gives when there is no usable file, and
  \<open>FastDAOFetcher.__init__\<close> for a checkpoint file that is absent or well formed.
\<close>

definition default_checkpoint :: checkpoint where
  "default_checkpoint =
     \<lparr>ck_delegates = [], ck_proposals = [], ck_last_delegate_cursor = None,
      ck_delegates_complete = None, ck_votes_cache = [], ck_processed_proposals = []\<rparr>"

definition init_fetcher :: "checkpoint option \<Rightarrow> fetcher" where
  "init_fetcher file =
     \<lparr>checkpoint_data = (case file of None \<Rightarrow> default_checkpoint | Some ck \<Rightarrow> ck),
      checkpoint_file = file, vote_checkpoint_file = [], request_count = 0,
      force_refresh_votes = False, vote_batch_size = 5000\<rparr>"

subsection \<open>Interrupting a run\<close>





section \<open>Proposal pagination\<close>

subsection \<open>\<open>FastDAOFetcher.validate_proposal_data_improved\<close>\<close>

fun has_value :: "'a field \<Rightarrow> bool" where
  "has_value (Val x) = True"
| "has_value Absent = False"
| "has_value Null = False"

text \<open>\<open>proposal.get('proposer', {}).get('address')\<close> is truthy; a \<open>null\<close> proposer raises.\<close>

definition proposer_known :: "proposal \<Rightarrow> bool" where
  "proposer_known p =
     (case p_proposer p of Val a \<Rightarrow> truthy (acc_address a) | _ \<Rightarrow> False)"

definition validate_proposal_data_improved :: "proposal \<Rightarrow> bool" where
  "validate_proposal_data_improved p =
     (if \<not> truthy (p_id p) then False
      else if has_value (p_status p) \<or> has_value (p_onchainId p) then True
      else
        (case p_metadata p of
           Null \<Rightarrow> False
         | Absent \<Rightarrow> proposer_known p
         | Val m \<Rightarrow>
             if truthy (md_title m) \<or> truthy (md_description m) then True
             else proposer_known p))"

subsection \<open>\<open>FastDAOFetcher.get_all_proposals_optimized\<close>\<close>

text \<open>
  One pass through the loop body, from line 587 on. The test \<open>result.get('data')\<close> is
  made on the result as it comes, so a result that is \<open>None\<close> raises. The fetcher is
  returned in every case: it is the object as the pass leaves it, also when it raises.
\<close>

definition proposals_iteration ::
  "proposal server \<Rightarrow> proposal paging \<Rightarrow> fetcher \<Rightarrow> proposal paging control \<times> fetcher" where
  "proposals_iteration srv l f =
     (let result = srv (request_count f) (page_input (after_cursor l));
          f' = f\<lparr>request_count := request_count f + 1\<rparr>
      in case result of
           NoResponse \<Rightarrow> (Raise AttributeError, f')
         | NoData \<Rightarrow> (Continue (l\<lparr>consecutive_failures := consecutive_failures l + 1\<rparr>), f')
         | Data proposals_batch new_cursor \<Rightarrow>
             if proposals_batch = [] then
               (Continue (l\<lparr>consecutive_failures := consecutive_failures l + 1\<rparr>), f')
             else
               (let valid_proposals = filter validate_proposal_data_improved proposals_batch;
                    l' = l\<lparr>consecutive_failures := 0,
                           all_items := all_items l @ valid_proposals,
                           page_count := page_count l + 1\<rparr>
                in if \<not> nonempty new_cursor then (Break l', f')
                   else if new_cursor = after_cursor l then (Break l', f')
                   else (Continue (l'\<lparr>after_cursor := new_cursor\<rparr>), f')))"

text \<open>
  \<open>while page_count < max_pages and consecutive_failures < 10\<close>, with \<open>max_pages = 100\<close>.
  Every pass that continues adds a page or a failure, so the loop is total.
\<close>

function proposals_loop ::
  "proposal server \<Rightarrow> proposal paging \<Rightarrow> fetcher \<Rightarrow> (py_error + exit \<times> proposal paging) \<times> fetcher" where
  "proposals_loop srv l f =
     (if page_count l < 100 \<and> consecutive_failures l < 10 then
        (case proposals_iteration srv l f of
           (Continue l', f') \<Rightarrow> proposals_loop srv l' f'
         | (Break l', f') \<Rightarrow> (Inr (EndOfPagination, l'), f')
         | (Raise e, f') \<Rightarrow> (Inl e, f'))
      else (Inr (LoopConditionFalse, l), f))"
  by pat_completeness auto
termination
  apply (relation "measures [\<lambda>(srv, l, f). 100 - page_count l,
                             \<lambda>(srv, l, f). 10 - consecutive_failures l]")
   apply simp
  apply (auto simp: proposals_iteration_def Let_def split: response.splits if_splits)
  done

declare proposals_loop.simps [simp del]

text \<open>
  The whole method: cached proposals are returned when there are at least 37 of them;
  otherwise the loop runs from an empty list, and \<open>save_checkpoint(proposals=...)\<close>
  follows it unless it raised.
\<close>

definition get_all_proposals_optimized ::
  "proposal server \<Rightarrow> fetcher \<Rightarrow> (py_error + proposal list) \<times> fetcher" where
  "get_all_proposals_optimized srv f =
     (let existing_proposals = ck_proposals (checkpoint_data f) in
      if existing_proposals \<noteq> [] \<and> length existing_proposals \<ge> 37
      then (Inr existing_proposals, f)
      else
        (case proposals_loop srv
                \<lparr>all_items = [], after_cursor = None, page_count = 0, consecutive_failures = 0\<rparr> f of
           (Inl e, f') \<Rightarrow> (Inl e, f')
         | (Inr (ex, l), f') \<Rightarrow>
             (Inr (all_items l), save_checkpoint None (Some (all_items l)) None None None f')))"

section \<open>Vote pagination\<close>

subsection \<open>\<open>FastDAOFetcher.validate_vote_data\<close>\<close>

text \<open>
  A vote needs a voter with an address and one sign of life among id, type,
  transaction hash, block timestamp, reason and creation time. The block is looked at
  only when there is no transaction hash, and a block that is \<open>null\<close> raises there, which
  the \<open>except\<close> turns into \<open>False\<close>. The entry \<open>platform\<close> is not among the fields the
  query asks for and is left out.
\<close>

definition validate_vote_data :: "vote \<Rightarrow> bool" where
  "validate_vote_data v =
     (case vote_voter v of
        Val voter \<Rightarrow>
          if \<not> truthy (voter_address voter) then False
          else if has_value (vote_txHash v) then True
          else
            (case vote_block v of
               Null \<Rightarrow> False
             | Absent \<Rightarrow>
                 has_value (vote_id v) \<or> has_value (vote_type v)
                 \<or> has_value (vote_reason v) \<or> has_value (vote_createdAt v)
             | Val b \<Rightarrow>
                 has_value (vote_id v) \<or> has_value (vote_type v)
                 \<or> has_value (block_timestamp b)
                 \<or> has_value (vote_reason v) \<or> has_value (vote_createdAt v))
      | _ \<Rightarrow> False)"

subsection \<open>Dictionaries kept in files\<close>

text \<open>Assignment to a key, deletion of a key; \<open>map_of\<close> reads.\<close>

definition dict_put :: "string \<Rightarrow> 'v \<Rightarrow> (string \<times> 'v) list \<Rightarrow> (string \<times> 'v) list" where
  "dict_put k v kvs = (k, v) # filter (\<lambda>kv. fst kv \<noteq> k) kvs"


subsection \<open>\<open>load_vote_cursor\<close> and \<open>save_vote_cursor\<close>\<close>


definition save_vote_cursor :: "string \<Rightarrow> string option \<Rightarrow> fetcher \<Rightarrow> fetcher" where
  "save_vote_cursor proposal_id after f =
     f\<lparr>vote_checkpoint_file := dict_put proposal_id after (vote_checkpoint_file f)\<rparr>"

subsection \<open>\<open>FastDAOFetcher.get_votes_for_proposal_high_volume\<close>\<close>

text \<open>
  The three lines that save progress, at a failed request and at a timed save:
  \<open>votes_cache[str(proposal_id)] = all_votes\<close>, \<open>save_checkpoint(votes_cache=...)\<close> and
  \<open>save_vote_cursor\<close>. The local \<open>votes_cache\<close> is the dictionary of the checkpoint in
  memory, and every write of the file is preceded by this assignment, so that reading
  the dictionary from the checkpoint at each save gives what the source saves.
\<close>

definition save_progress :: "string \<Rightarrow> vote list \<Rightarrow> string option \<Rightarrow> fetcher \<Rightarrow> fetcher" where
  "save_progress proposal_id all_votes after f =
     save_vote_cursor proposal_id after
       (save_checkpoint None None None
          (Some (dict_put proposal_id all_votes (ck_votes_cache (checkpoint_data f)))) None f)"








section \<open>The voting matrix\<close>

text \<open>
  What \<open>vote_map\<close> holds for a voter, and a row of the matrix. The column
  \<open>delegate_votes_count\<close> is a float; of it the row keeps \<open>is_active_delegate\<close>, the
  outcome of its comparison with 0. An entry that can be \<open>None\<close> is an option.
\<close>

record vote_info =
  vi_vote :: string
  vi_amount :: string
  vi_raw_type :: "string option"
  vi_reason :: string
  vi_block_timestamp :: string
  vi_block_number :: string
  vi_tx_hash :: string

record voting_record =
  delegate_address :: string
  delegate_name :: string
  delegate_ens :: "string option"
  delegate_delegators_count :: int
  has_statement :: bool
  seeking_delegation :: "bool option"
  proposal_id :: "string option"
  proposal_onchain_id :: string
  proposal_title :: "string option"
  proposal_status :: "string option"
  proposal_start_timestamp :: string
  proposal_end_timestamp :: string
  proposal_start_block :: string
  proposal_end_block :: string
  is_active_delegate :: bool
  dao_name :: string
  vote_outcome :: string
  voting_amount :: string
  vote_type_raw :: "string option"
  vote_reason_text :: string
  vote_timestamp :: string
  vote_block_number :: string
  vote_tx_hash :: string
  participated :: bool

subsection \<open>Reading entries\<close>

text \<open>\<open>d.get(k, default)\<close> on a string entry: \<open>None\<close> when the entry is \<open>null\<close>.\<close>

definition get_or :: "string field \<Rightarrow> string \<Rightarrow> string option" where
  "get_or x dflt = (case x of Absent \<Rightarrow> Some dflt | Null \<Rightarrow> None | Val s \<Rightarrow> Some s)"

text \<open>\<open>safe_get_nested\<close> with one key and with two keys: the default unless a value is there.\<close>

definition safe_get :: "string field \<Rightarrow> string \<Rightarrow> string" where
  "safe_get x dflt = (case x of Val s \<Rightarrow> s | _ \<Rightarrow> dflt)"

definition safe_get_block :: "block field \<Rightarrow> (block \<Rightarrow> string field) \<Rightarrow> string \<Rightarrow> string" where
  "safe_get_block b key dflt = (case b of Val x \<Rightarrow> safe_get (key x) dflt | _ \<Rightarrow> dflt)"

text \<open>The f-string \<open>Proposal {proposal_id}\<close>.\<close>

definition proposal_label :: "string field \<Rightarrow> string" where
  "proposal_label pid = ''Proposal '' @ (case pid of Val s \<Rightarrow> s | _ \<Rightarrow> ''None'')"

subsection \<open>The vote map of \<open>create_voting_matrix_fast\<close>\<close>

text \<open>
  Lines 935 to 957 for one vote: \<open>None\<close> when the vote is passed over for want of a
  voter address, otherwise the key and the entry stored under it.
\<close>

definition vote_entry ::
  "(string \<Rightarrow> bool option) \<Rightarrow> vote \<Rightarrow> py_error + (string \<times> vote_info) option" where
  "vote_entry flt v =
     (case vote_voter v of
        Val voter_info \<Rightarrow>
          (case voter_address voter_info of
             Val a \<Rightarrow>
               if a = [] then Inr None
               else
                 (case normalize_vote_type flt v of
                    Inl e \<Rightarrow> Inl e
                  | Inr normalized_vote \<Rightarrow>
                      Inr (Some (lower a,
                        \<lparr>vi_vote = normalized_vote,
                         vi_amount = (if truthy (vote_amount v) then safe_get (vote_amount v) ''0''
                                      else ''0''),
                         vi_raw_type = (case vote_type v of Val t \<Rightarrow> Some t | _ \<Rightarrow> None),
                         vi_reason = safe_get (vote_reason v) '''',
                         vi_block_timestamp =
                           safe_get_block (vote_block v) block_timestamp
                             (safe_get (vote_createdAt v) ''''),
                         vi_block_number = safe_get_block (vote_block v) block_number '''',
                         vi_tx_hash = safe_get (vote_txHash v) ''''\<rparr>)))
           | _ \<Rightarrow> Inr None)
      | _ \<Rightarrow> Inr None)"

text \<open>
  The dictionary is an association list with the latest assignment in front, so that
  \<open>map_of\<close> reads what a later vote of the same voter has overwritten.
\<close>

fun build_vote_map ::
  "(string \<Rightarrow> bool option) \<Rightarrow> vote list \<Rightarrow> (string \<times> vote_info) list \<Rightarrow>
   py_error + (string \<times> vote_info) list" where
  "build_vote_map flt [] vote_map = Inr vote_map"
| "build_vote_map flt (v # vs) vote_map =
     (case vote_entry flt v of
        Inl e \<Rightarrow> Inl e
      | Inr None \<Rightarrow> build_vote_map flt vs vote_map
      | Inr (Some kv) \<Rightarrow> build_vote_map flt vs (kv # vote_map))"

subsection \<open>\<open>FastDAOFetcher.process_all_delegates_for_proposal\<close>\<close>

definition no_account :: account where
  "no_account = \<lparr>acc_address = Absent, acc_name = Absent, acc_ens = Absent\<rparr>"

definition no_statement :: statement where
  "no_statement = \<lparr>stmt_statement = Absent, stmt_isSeekingDelegation = Absent\<rparr>"

text \<open>
  The two conversions inside \<open>try\<close>: whether both succeed, whether the vote count is
  greater than 0, and the delegator count.
\<close>

definition counts_convert :: "(string \<Rightarrow> bool option) \<Rightarrow> delegate \<Rightarrow> bool" where
  "counts_convert flt d =
     ((case d_votesCount d of
         Absent \<Rightarrow> True
       | Null \<Rightarrow> False
       | Val s \<Rightarrow> float_gt0 flt s \<noteq> None)
      \<and> d_delegatorsCount d \<noteq> Null)"

definition votes_count_positive :: "(string \<Rightarrow> bool option) \<Rightarrow> delegate \<Rightarrow> bool" where
  "votes_count_positive flt d =
     (counts_convert flt d \<and>
      (case d_votesCount d of Val s \<Rightarrow> float_gt0 flt s = Some True | _ \<Rightarrow> False))"

definition delegators_count :: "(string \<Rightarrow> bool option) \<Rightarrow> delegate \<Rightarrow> int" where
  "delegators_count flt d =
     (if counts_convert flt d then (case d_delegatorsCount d of Val n \<Rightarrow> n | _ \<Rightarrow> 0) else 0)"

text \<open>
  The dictionary \<open>record_data\<close> of lines 1019 to 1037, with the vote columns of a row
  without a vote already in it. \<open>statement_text\<close>, \<open>pid\<close> and \<open>md\<close> are the statement
  text, the proposal id and the metadata as the caller has read them.
\<close>

definition base_record ::
  "(string \<Rightarrow> bool option) \<Rightarrow> string \<Rightarrow> account \<Rightarrow> string \<Rightarrow> delegate \<Rightarrow> statement \<Rightarrow>
   string field \<Rightarrow> proposal \<Rightarrow> string field \<Rightarrow> metadata field \<Rightarrow> voting_record" where
  "base_record flt dao account_info address delegate statement_info statement_text proposal pid md =
     \<lparr>delegate_address = address,
      delegate_name =
        (if truthy (acc_name account_info) then safe_get (acc_name account_info) ''''
         else take 10 address @ ''...''),
      delegate_ens = get_or (acc_ens account_info) '''',
      delegate_delegators_count = delegators_count flt delegate,
      has_statement = (strip (safe_get statement_text '''') \<noteq> []),
      seeking_delegation =
        (case stmt_isSeekingDelegation statement_info of
           Absent \<Rightarrow> Some False | Null \<Rightarrow> None | Val b \<Rightarrow> Some b),
      proposal_id = (case pid of Val s \<Rightarrow> Some s | _ \<Rightarrow> None),
      proposal_onchain_id = safe_get (p_onchainId proposal) '''',
      proposal_title =
        (case md of
           Val m \<Rightarrow> get_or (md_title m) (proposal_label pid)
         | _ \<Rightarrow> Some (proposal_label pid)),
      proposal_status = get_or (p_status proposal) ''unknown'',
      proposal_start_timestamp = safe_get_block (p_start proposal) block_timestamp '''',
      proposal_end_timestamp = safe_get_block (p_end proposal) block_timestamp '''',
      proposal_start_block = safe_get_block (p_start proposal) block_number '''',
      proposal_end_block = safe_get_block (p_end proposal) block_number '''',
      is_active_delegate = votes_count_positive flt delegate,
      dao_name = dao,
      vote_outcome = ''Did Not Vote'',
      voting_amount = ''0'',
      vote_type_raw = Some '''',
      vote_reason_text = '''',
      vote_timestamp = '''',
      vote_block_number = '''',
      vote_tx_hash = '''',
      participated = False\<rparr>"

text \<open>Lines 1040 to 1062: the vote columns, from \<open>vote_map\<close> when the address is in it.\<close>

definition add_voting_information ::
  "(string \<times> vote_info) list \<Rightarrow> string \<Rightarrow> voting_record \<Rightarrow> voting_record" where
  "add_voting_information vote_map address_key record_data =
     (case map_of vote_map address_key of
        Some vote_info \<Rightarrow>
          record_data\<lparr>vote_outcome := vi_vote vote_info,
                      voting_amount := vi_amount vote_info,
                      vote_type_raw := vi_raw_type vote_info,
                      vote_reason_text := vi_reason vote_info,
                      vote_timestamp := vi_block_timestamp vote_info,
                      vote_block_number := vi_block_number vote_info,
                      vote_tx_hash := vi_tx_hash vote_info,
                      participated := True\<rparr>
      | None \<Rightarrow> record_data)"

text \<open>
  The body of the loop over the delegates, for one delegate: \<open>Inr None\<close> is the
  \<open>continue\<close> of line 1002.
\<close>

definition delegate_record ::
  "(string \<Rightarrow> bool option) \<Rightarrow> string \<Rightarrow> proposal \<Rightarrow> (string \<times> vote_info) list \<Rightarrow> delegate \<Rightarrow>
   py_error + voting_record option" where
  "delegate_record flt dao proposal vote_map delegate =
     (case d_account delegate of
        Null \<Rightarrow> Inl AttributeError
      | acc \<Rightarrow>
     (let account_info = (case acc of Val a \<Rightarrow> a | _ \<Rightarrow> no_account) in
      case acc_address account_info of
        Null \<Rightarrow> Inl AttributeError
      | adr \<Rightarrow>
     (let address = safe_get adr '''';
          delegate_address = lower address in
      if delegate_address = [] then Inr None
      else
     (case d_statement delegate of
        Null \<Rightarrow> Inl AttributeError
      | st \<Rightarrow>
     (let statement_info = (case st of Val x \<Rightarrow> x | _ \<Rightarrow> no_statement) in
      case stmt_statement statement_info of
        Null \<Rightarrow> Inl AttributeError
      | statement_text \<Rightarrow>
     (case p_id proposal of
        Absent \<Rightarrow> Inl KeyError
      | pid \<Rightarrow>
     (case p_metadata proposal of
        Null \<Rightarrow> Inl AttributeError
      | md \<Rightarrow>
          Inr (Some (add_voting_information vote_map delegate_address
                 (base_record flt dao account_info address delegate statement_info
                    statement_text proposal pid md))))))))))"

fun process_all_delegates_for_proposal ::
  "(string \<Rightarrow> bool option) \<Rightarrow> string \<Rightarrow> delegate list \<Rightarrow> proposal \<Rightarrow> (string \<times> vote_info) list \<Rightarrow>
   py_error + voting_record list" where
  "process_all_delegates_for_proposal flt dao [] proposal vote_map = Inr []"
| "process_all_delegates_for_proposal flt dao (delegate # delegates) proposal vote_map =
     (case delegate_record flt dao proposal vote_map delegate of
        Inl e \<Rightarrow> Inl e
      | Inr r \<Rightarrow>
          (case process_all_delegates_for_proposal flt dao delegates proposal vote_map of
             Inl e \<Rightarrow> Inl e
           | Inr proposal_data \<Rightarrow>
               Inr ((case r of None \<Rightarrow> [] | Some record_data \<Rightarrow> [record_data]) @ proposal_data)))"

subsection \<open>\<open>FastDAOFetcher.create_voting_matrix_fast\<close>\<close>

text \<open>
  The rows handed to \<open>save_optimized_results\<close>. \<open>get_votes p\<close> is the list that
  \<open>get_votes_for_proposal_high_volume\<close> returns for the proposal \<open>p\<close>, from the cache
  or from the service.
\<close>

fun create_voting_matrix_fast ::
  "(string \<Rightarrow> bool option) \<Rightarrow> string \<Rightarrow> (proposal \<Rightarrow> vote list) \<Rightarrow> proposal list \<Rightarrow>
   delegate list \<Rightarrow> py_error + voting_record list" where
  "create_voting_matrix_fast flt dao get_votes [] delegates = Inr []"
| "create_voting_matrix_fast flt dao get_votes (proposal # proposals) delegates =
     (case p_id proposal of
        Absent \<Rightarrow> Inl KeyError
      | _ \<Rightarrow>
          (case build_vote_map flt (get_votes proposal) [] of
             Inl e \<Rightarrow> Inl e
           | Inr vote_map \<Rightarrow>
               (case process_all_delegates_for_proposal flt dao delegates proposal vote_map of
                  Inl e \<Rightarrow> Inl e
                | Inr proposal_data \<Rightarrow>
                    (case create_voting_matrix_fast flt dao get_votes proposals delegates of
                       Inl e \<Rightarrow> Inl e
                     | Inr all_voting_data \<Rightarrow> Inr (proposal_data @ all_voting_data)))))"

text \<open>
  Inputs on which the builder does not raise and passes over no delegate: the
  delegate has a non-empty address, and neither its statement nor the text in it is
  \<open>null\<close>; the proposal has an \<open>id\<close> entry and its metadata is not \<open>null\<close>.
\<close>

definition has_address :: "delegate \<Rightarrow> bool" where
  "has_address d = (case d_account d of Val a \<Rightarrow> truthy (acc_address a) | _ \<Rightarrow> False)"

definition statement_readable :: "delegate \<Rightarrow> bool" where
  "statement_readable d =
     (case d_statement d of
        Null \<Rightarrow> False
      | Absent \<Rightarrow> True
      | Val st \<Rightarrow> stmt_statement st \<noteq> Null)"

definition proposal_readable :: "proposal \<Rightarrow> bool" where
  "proposal_readable p = (p_id p \<noteq> Absent \<and> p_metadata p \<noteq> Null)"

text \<open>A row without a vote.\<close>

definition did_not_vote :: "voting_record \<Rightarrow> bool" where
  "did_not_vote r =
     (vote_outcome r = ''Did Not Vote'' \<and> voting_amount r = ''0'' \<and> vote_type_raw r = Some ''''
      \<and> vote_reason_text r = '''' \<and> vote_timestamp r = '''' \<and> vote_block_number r = ''''
      \<and> vote_tx_hash r = '''' \<and> \<not> participated r)"

section \<open>Loading the checkpoint\<close>

text \<open>
  The checkpoint file as the loader meets it: missing, present but failing to open,
  or present with some contents. \<open>json.load\<close> is the parameter \<open>json_load\<close>: \<open>None\<close>
  when it raises, otherwise the parsed value. Numbers are kept as integers; the loader
  looks at none.
\<close>

datatype json =
    JNull | JBool bool | JNumber int | JString string
  | JArray "json list" | JObject "(string \<times> json) list"

datatype file_state = NoFile | Unopenable | Contents string

text \<open>\<open>data.get(key, default)\<close> and \<open>len(x)\<close> on parsed values.\<close>

definition py_get :: "json \<Rightarrow> string \<Rightarrow> json \<Rightarrow> py_error + json" where
  "py_get data key dflt =
     (case data of
        JObject kvs \<Rightarrow> Inr (case map_of kvs key of Some v \<Rightarrow> v | None \<Rightarrow> dflt)
      | _ \<Rightarrow> Inl AttributeError)"

definition py_len :: "json \<Rightarrow> py_error + nat" where
  "py_len x =
     (case x of
        JArray xs \<Rightarrow> Inr (length xs)
      | JString s \<Rightarrow> Inr (length s)
      | JObject kvs \<Rightarrow> Inr (length kvs)
      | _ \<Rightarrow> Inl TypeError)"

definition default_state :: json where
  "default_state =
     JObject [(''delegates'', JArray []), (''proposals'', JArray []),
              (''last_delegate_cursor'', JNull), (''votes_cache'', JObject []),
              (''processed_proposals'', JArray [])]"

subsection \<open>\<open>FastDAOFetcher.load_checkpoint\<close>\<close>

text \<open>
  The body of the \<open>try\<close>: open the file, parse it, and print how many delegates it
  holds, which takes \<open>len(data.get('delegates', []))\<close>.
\<close>

definition load_checkpoint_try :: "(string \<Rightarrow> json option) \<Rightarrow> file_state \<Rightarrow> py_error + json" where
  "load_checkpoint_try json_load f =
     (case f of
        NoFile \<Rightarrow> Inl OSError
      | Unopenable \<Rightarrow> Inl OSError
      | Contents s \<Rightarrow>
          (case json_load s of
             None \<Rightarrow> Inl ValueError
           | Some data \<Rightarrow>
               (case py_get data ''delegates'' (JArray []) of
                  Inl e \<Rightarrow> Inl e
                | Inr ds \<Rightarrow> (case py_len ds of Inl e \<Rightarrow> Inl e | Inr n \<Rightarrow> Inr data))))"

text \<open>
  The method: the \<open>try\<close> is entered when the file exists, its bare \<open>except\<close> swallows
  whatever was raised, and the default state is returned in every other case.
\<close>

definition load_checkpoint :: "(string \<Rightarrow> json option) \<Rightarrow> file_state \<Rightarrow> py_error + json" where
  "load_checkpoint json_load f =
     (if f \<noteq> NoFile then
        (case load_checkpoint_try json_load f of
           Inr data \<Rightarrow> Inr data
         | Inl e \<Rightarrow> Inr default_state)
      else Inr default_state)"

text \<open>
  A checkpoint file is usable when it is there, opens, parses, and holds an object whose
  \<open>delegates\<close> entry, if any, has a length.
\<close>

definition has_length :: "json \<Rightarrow> bool" where
  "has_length x = (case x of JArray xs \<Rightarrow> True | JString s \<Rightarrow> True | JObject kvs \<Rightarrow> True | _ \<Rightarrow> False)"

definition usable :: "(string \<Rightarrow> json option) \<Rightarrow> file_state \<Rightarrow> bool" where
  "usable json_load f =
     (case f of
        Contents s \<Rightarrow>
          (case json_load s of
             Some (JObject kvs) \<Rightarrow>
               (case map_of kvs ''delegates'' of None \<Rightarrow> True | Some ds \<Rightarrow> has_length ds)
           | _ \<Rightarrow> False)
      | _ \<Rightarrow> False)"

section \<open>Example inputs\<close>

definition delegate_at :: "string \<Rightarrow> delegate" where
  "delegate_at a =
     \<lparr>d_account = Val \<lparr>acc_address = Val a, acc_name = Absent, acc_ens = Absent\<rparr>,
      d_votesCount = Val ''10'', d_delegatorsCount = Val 1, d_statement = Absent\<rparr>"

definition no_float :: "string \<Rightarrow> bool option" where
  "no_float s = None"

definition never_due :: "nat \<Rightarrow> bool" where
  "never_due n = False"

text \<open>A service whose every answer is one last page holding the delegate \<open>0xb\<close>.\<close>

definition last_page_server :: "delegate server" where
  "last_page_server n c = Data [delegate_at ''0xb''] None"

text \<open>A checkpoint file of an earlier, interrupted run: one delegate and the cursor \<open>c1\<close>.\<close>

definition interrupted_checkpoint :: checkpoint where
  "interrupted_checkpoint =
     default_checkpoint\<lparr>ck_delegates := [delegate_at ''0xa''],
                        ck_last_delegate_cursor := Some ''c1'',
                        ck_delegates_complete := Some False\<rparr>"


text \<open>The page boundary after the first page of \<open>stalled_server\<close> in a fresh run.\<close>

definition stalled_boundary :: "delegate paging \<times> fetcher" where
  "stalled_boundary =
     (\<lparr>all_items = [delegate_at ''0xa''], after_cursor = Some ''c1'', page_count = 1,
       consecutive_failures = 0\<rparr>,
      (init_fetcher None)\<lparr>request_count := 1\<rparr>)"





text \<open>A service whose only page lists one address twice, in two spellings.\<close>

definition twin_page_server :: "delegate server" where
  "twin_page_server n c = Data [delegate_at ''0xa'', delegate_at ''0xA''] None"

text \<open>A proposal as the service lists it, with the id \<open>i\<close>.\<close>

definition proposal_at :: "string \<Rightarrow> proposal" where
  "proposal_at i =
     \<lparr>p_id = Val i, p_onchainId = Val i,
      p_metadata = Val \<lparr>md_title = Val ''Title'', md_description = Absent\<rparr>,
      p_proposer = Absent, p_status = Val ''active'', p_start = Absent, p_end = Absent\<rparr>"

text \<open>A request client whose retries are used up at every request.\<close>

definition silent_server :: "proposal server" where
  "silent_server n c = NoResponse"

text \<open>No proposal has any vote.\<close>

definition no_votes :: "proposal \<Rightarrow> vote list" where
  "no_votes p = []"

text \<open>A delegate without an \<open>account\<close> entry.\<close>

definition accountless_delegate :: delegate where
  "accountless_delegate =
     \<lparr>d_account = Absent, d_votesCount = Absent, d_delegatorsCount = Absent,
      d_statement = Absent\<rparr>"

text \<open>A parser that knows two texts, the empty object and the empty array.\<close>

definition tiny_parser :: "string \<Rightarrow> json option" where
  "tiny_parser s =
     (if s = ''{}'' then Some (JObject []) else if s = ''[]'' then Some (JArray []) else None)"

text \<open>A vote as the service lists it, cast by the address \<open>a\<close>.\<close>

definition vote_by :: "string \<Rightarrow> vote" where
  "vote_by a =
     \<lparr>vote_id = Val a, vote_type = Val ''for'', vote_amount = Val ''1'', vote_reason = Val '''',
      vote_voter = Val \<lparr>voter_address = Val a, voter_name = Absent\<rparr>, vote_block = Absent,
      vote_txHash = Val ''0x1'', vote_createdAt = Absent\<rparr>"


section \<open>Properties of the vote normalizer\<close>

lemma strip_FOR: "strip ''FOR'' = ''FOR''"
  by (simp add: strip_def is_space_def)

lemma lower_FOR: "lower ''FOR'' = ''for''"
  by (simp add: lower_def lower_char_def)

lemma type_lookup_FOR: "type_lookup (Val ''FOR'') = Inr (Some ''For'')"
  by (simp add: type_lookup_def strip_FOR lower_FOR type_mappings_def)

text \<open>
  C6. A vote with raw type \<open>FOR\<close>, amount \<open>0\<close>, empty reason and empty transaction hash
  is normalized to \<open>For\<close>: the table lookup of the type string answers before the amount
  is looked at.
\<close>

theorem normalize_FOR_zero_amount:
  assumes "vote_type v = Val ''FOR''"
    and "vote_amount v = Val ''0''"
    and "vote_reason v = Val ''''"
    and "vote_txHash v = Val ''''"
  shows "normalize_vote_type flt v = Inr ''For''"
  using assms by (simp add: normalize_vote_type_def type_lookup_FOR)

theorem normalize_FOR_zero_amount_witness:
  "normalize_vote_type (\<lambda>s. None)
     \<lparr>vote_id = Val ''v1'', vote_type = Val ''FOR'', vote_amount = Val ''0'',
      vote_reason = Val '''', vote_voter = Null, vote_block = Null,
      vote_txHash = Val '''', vote_createdAt = Absent\<rparr> = Inr ''For''"
  by (rule normalize_FOR_zero_amount) simp_all

text \<open>
  C7. A vote whose raw type matches no entry of the table (it is absent, blank or
  unknown), whose amount is zero (more generally: not made greater than 0 by the
  conversion), whose reason is the empty string and whose transaction hash is not empty
  is normalized to \<open>Voted\<close>.
\<close>

theorem normalize_unmatched_with_tx_hash:
  assumes "type_lookup (vote_type v) = Inr None"
    and "\<not> amount_positive flt (vote_amount v)"
    and "vote_reason v = Val ''''"
    and "vote_txHash v = Val h" and "h \<noteq> ''''"
  shows "normalize_vote_type flt v = Inr ''Voted''"
  using assms by (simp add: normalize_vote_type_def reason_analysis_def lower_def)

lemma type_lookup_MAYBE: "type_lookup (Val ''MAYBE'') = Inr None"
  by (simp add: type_lookup_def strip_def is_space_def lower_def lower_char_def
      type_mappings_def)

lemma amount_zero_not_positive: "\<not> amount_positive flt (Val ''0'')"
  by (simp add: amount_positive_def float_gt0_def all_digits_def is_digit_def)

theorem normalize_unmatched_with_tx_hash_witness:
  "normalize_vote_type (\<lambda>s. None)
     \<lparr>vote_id = Val ''v2'', vote_type = Val ''MAYBE'', vote_amount = Val ''0'',
      vote_reason = Val '''', vote_voter = Null, vote_block = Null,
      vote_txHash = Val ''0xabc'', vote_createdAt = Absent\<rparr> = Inr ''Voted''"
  by (rule normalize_unmatched_with_tx_hash [where h = "''0xabc''"])
     (simp_all add: type_lookup_MAYBE amount_zero_not_positive)

section \<open>Properties of the checkpoint and of delegate pagination\<close>

lemma request_count_save_checkpoint [simp]:
  "request_count (save_checkpoint ds ps c vc pp f) = request_count f"
  by (simp add: save_checkpoint_def Let_def)

lemma checkpoint_file_save_checkpoint [simp]:
  "checkpoint_file (save_checkpoint ds ps c vc pp f) =
     Some (checkpoint_data (save_checkpoint ds ps c vc pp f))"
  by (simp add: save_checkpoint_def Let_def)

lemma cursor_save_checkpoint [simp]:
  "ck_last_delegate_cursor (checkpoint_data (save_checkpoint ds ps c vc pp f)) =
     (case c of None \<Rightarrow> ck_last_delegate_cursor (checkpoint_data f) | Some x \<Rightarrow> Some x)"
  by (simp add: save_checkpoint_def Let_def split: option.splits)

lemma delegates_save_checkpoint [simp]:
  "ck_delegates (checkpoint_data (save_checkpoint ds ps c vc pp f)) =
     (case ds of None \<Rightarrow> ck_delegates (checkpoint_data f) | Some x \<Rightarrow> x)"
  by (simp add: save_checkpoint_def Let_def split: option.splits)

lemma validate_delegate_at [simp]: "validate_delegate_data flt (delegate_at (c # a))"
  by (simp add: validate_delegate_data_def delegate_at_def float_gt0_def all_digits_def
      is_digit_def)

lemma address_lower_delegate_at [simp]: "address_lower (delegate_at a) = Inr (lower a)"
  by (simp add: address_lower_def delegate_at_def)

lemma lower_0xa [simp]: "lower ''0xa'' = ''0xa''"
  by (simp add: lower_def lower_char_def)

lemma lower_0xb [simp]: "lower ''0xb'' = ''0xb''"
  by (simp add: lower_def lower_char_def)

text \<open>
  C1. A run that resumes from the checkpoint \<open>([0xa], c1)\<close> and is served one last page
  leaves the loop at the end of pagination and returns both delegates; the checkpoint
  file written afterwards still holds the resume cursor \<open>c1\<close>, because
  \<open>save_checkpoint\<close> ignores a cursor that is \<open>None\<close>.
\<close>

theorem finished_run_keeps_resume_cursor:
  "returned (get_all_delegates_optimized (Suc 0) no_float last_page_server never_due
              (init_fetcher (Some interrupted_checkpoint)))
     = Some (EndOfPagination, [delegate_at ''0xa'', delegate_at ''0xb''])
   \<and> map_option ck_last_delegate_cursor
        (left_on_disk (get_all_delegates_optimized (Suc 0) no_float last_page_server never_due
                         (init_fetcher (Some interrupted_checkpoint))))
     = Some (Some ''c1'')"
  by (simp add: get_all_delegates_optimized_def delegates_start_def init_fetcher_def
      interrupted_checkpoint_def default_checkpoint_def nonempty_def page_input_def
      delegates_iteration_def last_page_server_def never_due_def merge_page_def
      returned_def left_on_disk_def Let_def)

lemma lower_0xA [simp]: "lower ''0xA'' = ''0xa''"
  by (simp add: lower_def lower_char_def)

lemmas run_defs =
  get_all_delegates_optimized_def delegates_start_def init_fetcher_def default_checkpoint_def
  nonempty_def page_input_def delegates_iteration_def never_due_def merge_page_def
  returned_def left_on_disk_def Let_def

subsection \<open>A cursor that comes back unchanged\<close>



text \<open>The same for the vote loop, whose pages are appended as they come.\<close>

lemma request_count_save_vote_cursor [simp]:
  "request_count (save_vote_cursor p c f) = request_count f"
  by (simp add: save_vote_cursor_def)

lemma batch_size_save_vote_cursor [simp]:
  "vote_batch_size (save_vote_cursor p c f) = vote_batch_size f"
  by (simp add: save_vote_cursor_def)

lemma batch_size_save_checkpoint [simp]:
  "vote_batch_size (save_checkpoint ds ps c vc pp f) = vote_batch_size f"
  by (simp add: save_checkpoint_def Let_def)

lemma request_count_save_progress [simp]:
  "request_count (save_progress p vs c f) = request_count f"
  by (simp add: save_progress_def)

lemma batch_size_save_progress [simp]:
  "vote_batch_size (save_progress p vs c f) = vote_batch_size f"
  by (simp add: save_progress_def)



lemma validate_vote_by [simp]: "validate_vote_data (vote_by (c # a))"
  by (simp add: validate_vote_data_def vote_by_def)





subsection \<open>Merging pages\<close>

lemma addresses_Inr_iff:
  "addresses ds = Inr as \<longleftrightarrow>
     (\<forall>d\<in>set ds. \<not> isl (address_lower d)) \<and> as = map (\<lambda>d. projr (address_lower d)) ds"
proof (induction ds arbitrary: as)
  case Nil
  then show ?case by auto
next
  case (Cons d ds)
  show ?case
  proof (cases "address_lower d")
    case (Inl e)
    then show ?thesis by simp
  next
    case (Inr a)
    then show ?thesis
      using Cons.IH by (cases "addresses ds") auto
  qed
qed

lemma addresses_Inl_iff:
  "(\<exists>e. addresses ds = Inl e) \<longleftrightarrow> (\<exists>d\<in>set ds. isl (address_lower d))"
  using addresses_Inr_iff [of ds] by (cases "addresses ds") auto

lemma unique_addresses_iff:
  "unique_addresses ds \<longleftrightarrow>
     (\<forall>d\<in>set ds. \<not> isl (address_lower d)) \<and> distinct (map (\<lambda>d. projr (address_lower d)) ds)"
proof (cases "addresses ds")
  case (Inl e)
  then have "\<exists>d\<in>set ds. isl (address_lower d)"
    using addresses_Inl_iff [of ds] by blast
  with Inl show ?thesis
    by (auto simp: unique_addresses_def)
next
  case (Inr as)
  then have "(\<forall>d\<in>set ds. \<not> isl (address_lower d)) \<and> as = map (\<lambda>d. projr (address_lower d)) ds"
    by (simp add: addresses_Inr_iff)
  with Inr show ?thesis
    by (simp add: unique_addresses_def)
qed

lemma validate_has_address:
  "validate_delegate_data flt d \<Longrightarrow> \<not> isl (address_lower d)"
  by (auto simp: validate_delegate_data_def address_lower_def split: field.splits if_splits)

text \<open>
  What a merge that does not raise returns: the accumulation as it was, followed by
  the valid delegates of the page whose lower-cased address is not accumulated yet.
\<close>

lemma merge_page_Inr:
  assumes "merge_page flt acc batch = Inr acc'"
  shows "acc' = acc @ filter (\<lambda>d. projr (address_lower d) \<notin> projr ` address_lower ` set acc)
                      (filter (validate_delegate_data flt) batch)"
proof -
  let ?valid = "filter (validate_delegate_data flt) batch"
  from assms obtain new_a ex_a where
    na: "addresses ?valid = Inr new_a" and ea: "addresses acc = Inr ex_a"
    by (auto simp: merge_page_def Let_def split: sum.splits)
  have ex: "set ex_a = projr ` address_lower ` set acc"
    using ea by (auto simp: addresses_Inr_iff)
  have new: "set new_a = projr ` address_lower ` set ?valid"
    and okv: "\<forall>d\<in>set ?valid. \<not> isl (address_lower d)"
    using na by (auto simp: addresses_Inr_iff)
  have filt:
    "filter (\<lambda>d. case address_lower d of Inr a \<Rightarrow> a \<notin> set ex_a | Inl e \<Rightarrow> False) ?valid
       = filter (\<lambda>d. projr (address_lower d) \<notin> set ex_a) ?valid"
    using okv by (intro filter_cong) (auto split: sum.splits)
  have nodup: "set new_a \<inter> set ex_a = {} \<Longrightarrow>
      filter (\<lambda>d. projr (address_lower d) \<notin> set ex_a) ?valid = ?valid"
    unfolding new by (intro filter_True) auto
  have "acc' = acc @ filter (\<lambda>d. projr (address_lower d) \<notin> set ex_a) ?valid"
    using assms na ea filt nodup by (auto simp: merge_page_def Let_def)
  then show ?thesis
    using ex by simp
qed

lemma merge_page_total:
  assumes "\<forall>d\<in>set acc. \<not> isl (address_lower d)"
  shows "merge_page flt acc batch =
     Inr (acc @ filter (\<lambda>d. projr (address_lower d) \<notin> projr ` address_lower ` set acc)
                  (filter (validate_delegate_data flt) batch))"
proof -
  have "\<not> (\<exists>e. addresses acc = Inl e)"
    using assms by (simp add: addresses_Inl_iff)
  moreover have "\<not> (\<exists>e. addresses (filter (validate_delegate_data flt) batch) = Inl e)"
    by (simp add: addresses_Inl_iff validate_has_address)
  ultimately obtain acc' where "merge_page flt acc batch = Inr acc'"
    by (cases "addresses acc"; cases "addresses (filter (validate_delegate_data flt) batch)")
       (auto simp: merge_page_def Let_def)
  then show ?thesis
    using merge_page_Inr by fastforce
qed

lemma merge_page_unique:
  assumes "unique_addresses acc"
    and "unique_addresses (filter (validate_delegate_data flt) batch)"
  shows "\<exists>new. merge_page flt acc batch = Inr (acc @ new) \<and> unique_addresses (acc @ new)"
proof -
  let ?key = "\<lambda>d. projr (address_lower d)"
  let ?valid = "filter (validate_delegate_data flt) batch"
  let ?new = "filter (\<lambda>d. ?key d \<notin> projr ` address_lower ` set acc) ?valid"
  have acc: "\<forall>d\<in>set acc. \<not> isl (address_lower d)" "distinct (map ?key acc)"
    using assms(1) by (simp_all add: unique_addresses_iff)
  have valid: "\<forall>d\<in>set ?valid. \<not> isl (address_lower d)" "distinct (map ?key ?valid)"
    using assms(2) by (simp_all add: unique_addresses_iff)
  have m: "merge_page flt acc batch = Inr (acc @ ?new)"
    using acc(1) by (rule merge_page_total)
  have d: "distinct (map ?key ?new)"
    using valid(2) by (rule distinct_map_filter)
  have disj: "set (map ?key acc) \<inter> set (map ?key ?new) = {}"
  proof -
    have "a \<notin> set (map ?key acc)" if "a \<in> set (map ?key ?new)" for a
    proof -
      from that obtain x where "x \<in> set ?new" and "a = ?key x"
        by (auto simp del: filter_filter)
      then show ?thesis
        by (simp add: image_image)
    qed
    then show ?thesis
      by (meson disjoint_iff)
  qed
  have ok: "\<forall>d\<in>set (acc @ ?new). \<not> isl (address_lower d)"
  proof
    fix d assume "d \<in> set (acc @ ?new)"
    then have "d \<in> set acc \<or> d \<in> set ?valid"
      by fastforce
    then show "\<not> isl (address_lower d)"
      using acc(1) valid(1) by blast
  qed
  have "distinct (map ?key (acc @ ?new))"
    using acc(2) d disj by (simp only: map_append distinct_append simp_thms)
  with ok have "unique_addresses (acc @ ?new)"
    by (simp only: unique_addresses_iff simp_thms)
  then show ?thesis
    using m by blast
qed

text \<open>
  C8, as the code has it. Merging drops the delegates of a page whose lower-cased
  address is accumulated already and leaves the accumulated records in place. So when
  the accumulation starts with one record per lower-cased address, and no page holds
  two valid delegates with the same lower-cased address, then any sequence of merges
  succeeds, keeps the accumulation as a prefix, and ends with one record per
  lower-cased address.
\<close>

theorem merged_pages_one_record_per_address:
  assumes "unique_addresses acc"
    and "list_all (\<lambda>batch. unique_addresses (filter (validate_delegate_data flt) batch)) pages"
  shows "\<exists>new. merge_pages flt acc pages = Inr (acc @ new) \<and> unique_addresses (acc @ new)"
  using assms
proof (induction pages arbitrary: acc)
  case Nil
  then show ?case by simp
next
  case (Cons batch pages)
  from Cons.prems obtain new1 where
    m: "merge_page flt acc batch = Inr (acc @ new1)" and u: "unique_addresses (acc @ new1)"
    using merge_page_unique [of acc flt batch] by auto
  from Cons.IH [OF u] Cons.prems(2) obtain new2 where
    "merge_pages flt (acc @ new1) pages = Inr ((acc @ new1) @ new2)"
    "unique_addresses ((acc @ new1) @ new2)"
    by auto
  with m show ?case
    by (intro exI [of _ "new1 @ new2"]) simp
qed

theorem merged_pages_one_record_per_address_witness:
  "\<exists>new. merge_pages no_float [delegate_at ''0xa'']
            [[delegate_at ''0xA'', delegate_at ''0xb'']] = Inr ([delegate_at ''0xa''] @ new)
        \<and> unique_addresses ([delegate_at ''0xa''] @ new)"
  by (rule merged_pages_one_record_per_address) (simp_all add: unique_addresses_def)

text \<open>
  C8 as stated fails: a page that lists the address \<open>0xa\<close> twice, once as \<open>0xA\<close>, is
  merged whole into the empty accumulation, and the run returns two records with the
  same lower-cased address.
\<close>

theorem twin_page_counterexample:
  "returned (get_all_delegates_optimized (Suc 0) no_float twin_page_server never_due
              (init_fetcher None))
     = Some (EndOfPagination, [delegate_at ''0xa'', delegate_at ''0xA''])
   \<and> addresses [delegate_at ''0xa'', delegate_at ''0xA''] = Inr [''0xa'', ''0xa'']"
  by (simp add: run_defs twin_page_server_def)

subsection \<open>Resuming from a checkpoint\<close>














section \<open>Properties of proposal pagination\<close>

text \<open>
  C3. The first request of a fresh run comes back as \<open>None\<close>. The proposal loop calls
  \<open>result.get('data')\<close> on it and raises \<open>AttributeError\<close>; no checkpoint has been
  written when the exception leaves the method.
\<close>

theorem proposals_none_result_raises:
  "get_all_proposals_optimized silent_server (init_fetcher None)
     = (Inl AttributeError, (init_fetcher None)\<lparr>request_count := 1\<rparr>)"
  by (simp add: get_all_proposals_optimized_def proposals_loop.simps proposals_iteration_def
      silent_server_def init_fetcher_def default_checkpoint_def Let_def)

section \<open>Properties of the voting matrix\<close>

lemma lower_Nil_iff [simp]: "lower s = [] \<longleftrightarrow> s = []"
  by (simp add: lower_def)

lemma address_add_voting_information [simp]:
  "delegate_address (add_voting_information vm k r) = delegate_address r"
  by (simp add: add_voting_information_def split: option.splits)

lemma address_base_record [simp]:
  "delegate_address (base_record flt dao a address d st ss p pid md) = address"
  by (simp add: base_record_def)

lemma add_voting_information_empty [simp]: "add_voting_information [] k r = r"
  by (simp add: add_voting_information_def)

lemma did_not_vote_base_record [simp]:
  "did_not_vote (base_record flt dao a address d st ss p pid md)"
  by (simp add: base_record_def did_not_vote_def)

lemma delegate_record_skips:
  assumes "delegate_record flt dao p vm d = Inr r"
  shows "r = None \<longleftrightarrow> \<not> has_address d"
  using assms
  by (auto simp: delegate_record_def has_address_def safe_get_def no_account_def Let_def
      split: field.splits if_splits option.splits)

lemma delegate_record_address:
  assumes "delegate_record flt dao p vm d = Inr (Some r)"
  shows "delegate_address r \<noteq> []"
  using assms
  by (auto simp: delegate_record_def safe_get_def no_account_def Let_def
      split: field.splits if_splits option.splits)

lemma process_all_Cons_Inr:
  "process_all_delegates_for_proposal flt dao (d # ds) p vm = Inr recs \<longleftrightarrow>
   (\<exists>r rest. delegate_record flt dao p vm d = Inr r
      \<and> process_all_delegates_for_proposal flt dao ds p vm = Inr rest
      \<and> recs = (case r of None \<Rightarrow> [] | Some x \<Rightarrow> [x]) @ rest)"
proof (cases "delegate_record flt dao p vm d")
  case (Inl e)
  then show ?thesis by simp
next
  case (Inr r)
  then show ?thesis
    by (cases "process_all_delegates_for_proposal flt dao ds p vm") auto
qed

lemma process_all_length:
  "process_all_delegates_for_proposal flt dao ds p vm = Inr recs \<Longrightarrow>
   length recs = length (filter has_address ds) \<and> (\<forall>r\<in>set recs. delegate_address r \<noteq> [])"
proof (induction ds arbitrary: recs)
  case Nil
  then show ?case by simp
next
  case (Cons d ds)
  from Cons.prems obtain r rest where
    r: "delegate_record flt dao p vm d = Inr r"
    and rest: "process_all_delegates_for_proposal flt dao ds p vm = Inr rest"
    and recs: "recs = (case r of None \<Rightarrow> [] | Some x \<Rightarrow> [x]) @ rest"
    unfolding process_all_Cons_Inr by blast
  note IH = Cons.IH [OF rest]
  show ?case
  proof (cases r)
    case None
    with delegate_record_skips [OF r] have "\<not> has_address d" by simp
    with None recs IH show ?thesis by simp
  next
    case (Some x)
    with delegate_record_skips [OF r] have "has_address d" by simp
    moreover from Some r have "delegate_address x \<noteq> []"
      by (simp add: delegate_record_address)
    ultimately show ?thesis
      using Some recs IH by simp
  qed
qed

lemma create_Cons_Inr:
  "create_voting_matrix_fast flt dao get_votes (p # ps) ds = Inr recs \<longleftrightarrow>
   (p_id p \<noteq> Absent \<and>
    (\<exists>vm pd rest. build_vote_map flt (get_votes p) [] = Inr vm
       \<and> process_all_delegates_for_proposal flt dao ds p vm = Inr pd
       \<and> create_voting_matrix_fast flt dao get_votes ps ds = Inr rest
       \<and> recs = pd @ rest))"
proof (cases "p_id p = Absent")
  case True
  then show ?thesis by simp
next
  case False
  then have step: "create_voting_matrix_fast flt dao get_votes (p # ps) ds =
     (case build_vote_map flt (get_votes p) [] of
        Inl e \<Rightarrow> Inl e
      | Inr vote_map \<Rightarrow>
          (case process_all_delegates_for_proposal flt dao ds p vote_map of
             Inl e \<Rightarrow> Inl e
           | Inr proposal_data \<Rightarrow>
               (case create_voting_matrix_fast flt dao get_votes ps ds of
                  Inl e \<Rightarrow> Inl e
                | Inr all_voting_data \<Rightarrow> Inr (proposal_data @ all_voting_data))))"
    by (cases "p_id p") simp_all
  show ?thesis
  proof (cases "build_vote_map flt (get_votes p) []")
    case (Inl e)
    with step False show ?thesis by simp
  next
    case vm: (Inr vm)
    show ?thesis
    proof (cases "process_all_delegates_for_proposal flt dao ds p vm")
      case (Inl e)
      with step vm False show ?thesis by simp
    next
      case pd: (Inr pd)
      show ?thesis
        using step vm pd False
        by (cases "create_voting_matrix_fast flt dao get_votes ps ds") auto
    qed
  qed
qed

text \<open>
  C10. Whenever the builder returns its rows, there are exactly as many of them as
  there are proposals times delegates with a non-empty address: a delegate whose
  account or address is missing or empty gets no row for any proposal, and every row
  carries a non-empty address.
\<close>

theorem matrix_counts_delegates_with_address:
  assumes "create_voting_matrix_fast flt dao get_votes proposals delegates = Inr recs"
  shows "length recs = length proposals * length (filter has_address delegates)
     \<and> (\<forall>r\<in>set recs. delegate_address r \<noteq> [])"
  using assms
proof (induction proposals arbitrary: recs)
  case Nil
  then show ?case by simp
next
  case (Cons p ps)
  from Cons.prems obtain vm pd rest where
    pd: "process_all_delegates_for_proposal flt dao delegates p vm = Inr pd"
    and rest: "create_voting_matrix_fast flt dao get_votes ps delegates = Inr rest"
    and recs: "recs = pd @ rest"
    unfolding create_Cons_Inr by blast
  from process_all_length [OF pd] Cons.IH [OF rest] recs show ?case
    by auto
qed

lemma delegate_record_no_votes:
  assumes "has_address d" and "statement_readable d" and "proposal_readable p"
  shows "\<exists>r. delegate_record flt dao p [] d = Inr (Some r) \<and> did_not_vote r"
  using assms
  by (auto simp: delegate_record_def has_address_def statement_readable_def
      proposal_readable_def safe_get_def no_statement_def Let_def
      split: field.splits)

lemma process_all_no_votes:
  assumes "list_all (\<lambda>d. has_address d \<and> statement_readable d) ds" and "proposal_readable p"
  shows "\<exists>recs. process_all_delegates_for_proposal flt dao ds p [] = Inr recs
     \<and> length recs = length ds \<and> list_all did_not_vote recs"
  using assms
proof (induction ds)
  case Nil
  then show ?case by simp
next
  case (Cons d ds)
  then obtain r where r: "delegate_record flt dao p [] d = Inr (Some r)" "did_not_vote r"
    using delegate_record_no_votes [of d p flt dao] by auto
  from Cons obtain recs where
    recs: "process_all_delegates_for_proposal flt dao ds p [] = Inr recs"
    "length recs = length ds" "list_all did_not_vote recs"
    by auto
  have "process_all_delegates_for_proposal flt dao (d # ds) p [] = Inr (r # recs)"
    unfolding process_all_Cons_Inr using r recs by simp
  with r recs show ?case by simp
qed

text \<open>
  C5, as the code has it. There are P proposals and D delegates and no proposal has
  any vote; every delegate has a non-empty address and a statement the builder can
  read, every proposal an id and metadata it can read. Then the builder returns
  exactly P times D rows, each of them with the outcome \<open>Did Not Vote\<close>, the amount
  \<open>0\<close>, the other vote columns empty, and \<open>participated\<close> false.
\<close>

theorem matrix_without_votes:
  assumes "list_all (\<lambda>p. get_votes p = [] \<and> proposal_readable p) proposals"
    and "list_all (\<lambda>d. has_address d \<and> statement_readable d) delegates"
  shows "\<exists>recs. create_voting_matrix_fast flt dao get_votes proposals delegates = Inr recs
     \<and> length recs = length proposals * length delegates \<and> list_all did_not_vote recs"
  using assms(1)
proof (induction proposals)
  case Nil
  then show ?case by simp
next
  case (Cons p ps)
  then have p: "get_votes p = []" "proposal_readable p" by simp_all
  from process_all_no_votes [OF assms(2) p(2), of flt dao] obtain pd where
    pd: "process_all_delegates_for_proposal flt dao delegates p [] = Inr pd"
      "length pd = length delegates" "list_all did_not_vote pd"
    by blast
  from Cons obtain rest where
    rest: "create_voting_matrix_fast flt dao get_votes ps delegates = Inr rest"
      "length rest = length ps * length delegates" "list_all did_not_vote rest"
    by auto
  from p(2) have "p_id p \<noteq> Absent" by (simp add: proposal_readable_def)
  then have "create_voting_matrix_fast flt dao get_votes (p # ps) delegates = Inr (pd @ rest)"
    unfolding create_Cons_Inr using p(1) pd(1) rest(1) by simp
  with pd rest show ?case by simp
qed

lemma has_address_delegate_at [simp]: "has_address (delegate_at a) \<longleftrightarrow> a \<noteq> []"
  by (simp add: has_address_def delegate_at_def)

lemma statement_readable_delegate_at [simp]: "statement_readable (delegate_at a)"
  by (simp add: statement_readable_def delegate_at_def)

lemma proposal_readable_proposal_at [simp]: "proposal_readable (proposal_at i)"
  by (simp add: proposal_readable_def proposal_at_def)

lemma has_address_accountless [simp]: "\<not> has_address accountless_delegate"
  by (simp add: has_address_def accountless_delegate_def)

theorem matrix_without_votes_witness:
  "\<exists>recs. create_voting_matrix_fast no_float ''DAO'' no_votes
             [proposal_at ''1'', proposal_at ''2''] [delegate_at ''0xa'', delegate_at ''0xb'']
           = Inr recs
        \<and> length recs = length [proposal_at ''1'', proposal_at ''2'']
                         * length [delegate_at ''0xa'', delegate_at ''0xb'']
        \<and> list_all did_not_vote recs"
  by (rule matrix_without_votes) (simp_all add: no_votes_def)

text \<open>
  C5 as stated fails: with one proposal and one delegate whose address is the empty
  string, and no votes, the builder returns no row at all.
\<close>

theorem matrix_without_votes_counterexample:
  "create_voting_matrix_fast no_float ''DAO'' no_votes [proposal_at ''1''] [delegate_at '''']
     = Inr []"
  by (simp add: no_votes_def proposal_at_def delegate_at_def delegate_record_def
      safe_get_def Let_def)

theorem matrix_counts_delegates_with_address_witness:
  "\<exists>recs. create_voting_matrix_fast no_float ''DAO'' no_votes
             [proposal_at ''1'', proposal_at ''2'']
             [delegate_at ''0xa'', delegate_at '''', accountless_delegate]
           = Inr recs
        \<and> length recs = 2"
proof -
  let ?ps = "[proposal_at ''1'', proposal_at ''2'']"
  let ?ds = "[delegate_at ''0xa'', delegate_at '''', accountless_delegate]"
  have "\<exists>recs. create_voting_matrix_fast no_float ''DAO'' no_votes ?ps ?ds = Inr recs"
    by (simp add: no_votes_def proposal_at_def delegate_at_def accountless_delegate_def
        delegate_record_def safe_get_def no_account_def no_statement_def lower_def
        lower_char_def Let_def)
  then obtain recs where
    recs: "create_voting_matrix_fast no_float ''DAO'' no_votes ?ps ?ds = Inr recs" ..
  from matrix_counts_delegates_with_address [OF recs] have "length recs = 2"
    by simp
  with recs show ?thesis by blast
qed

section \<open>Properties of the checkpoint loader\<close>

lemma load_unparsable:
  "json_load s = None \<Longrightarrow> load_checkpoint json_load (Contents s) = Inr default_state"
  by (simp add: load_checkpoint_def load_checkpoint_try_def)

lemma load_parsed_object:
  assumes "json_load s = Some (JObject kvs)"
  shows "load_checkpoint json_load (Contents s) =
     Inr (if usable json_load (Contents s) then JObject kvs else default_state)"
proof (cases "map_of kvs ''delegates''")
  case None
  with assms show ?thesis
    by (simp add: load_checkpoint_def load_checkpoint_try_def usable_def py_get_def
        py_len_def)
next
  case (Some ds)
  with assms show ?thesis
    by (cases ds)
       (simp_all add: load_checkpoint_def load_checkpoint_try_def usable_def py_get_def
          py_len_def has_length_def)
qed

lemma load_parsed:
  assumes "json_load s = Some data"
  shows "load_checkpoint json_load (Contents s) =
     Inr (if usable json_load (Contents s) then data else default_state)"
  using assms load_parsed_object [of json_load s]
  by (cases data)
     (simp_all add: load_checkpoint_def load_checkpoint_try_def usable_def py_get_def)

text \<open>
  C9. Loading the checkpoint never raises, whatever the file and whatever the parser
  makes of it; and whenever the file is not usable (it is missing, cannot be opened,
  does not parse, as a truncated file does not, or holds something else than an object
  with a countable \<open>delegates\<close> entry) the loader returns the default state: empty
  delegates, empty proposals, no delegate cursor, empty votes cache, empty list of
  processed proposals.
\<close>

theorem load_checkpoint_never_raises:
  "\<not> isl (load_checkpoint json_load f)
   \<and> (\<not> usable json_load f \<longrightarrow>
        load_checkpoint json_load f =
          Inr (JObject [(''delegates'', JArray []), (''proposals'', JArray []),
                        (''last_delegate_cursor'', JNull), (''votes_cache'', JObject []),
                        (''processed_proposals'', JArray [])]))"
proof (cases f)
  case NoFile
  then show ?thesis
    by (simp add: load_checkpoint_def default_state_def)
next
  case Unopenable
  then show ?thesis
    by (simp add: load_checkpoint_def load_checkpoint_try_def default_state_def)
next
  case (Contents s)
  show ?thesis
  proof (cases "json_load s")
    case None
    with Contents load_unparsable [of json_load s] show ?thesis
      by (simp add: default_state_def)
  next
    case (Some data)
    with Contents load_parsed [of json_load s data] show ?thesis
      by (simp add: default_state_def)
  qed
qed

theorem load_checkpoint_never_raises_witness:
  "\<not> isl (load_checkpoint tiny_parser (Contents ''{''))
   \<and> \<not> usable tiny_parser (Contents ''{'')
   \<and> load_checkpoint tiny_parser (Contents ''{'') =
       Inr (JObject [(''delegates'', JArray []), (''proposals'', JArray []),
                     (''last_delegate_cursor'', JNull), (''votes_cache'', JObject []),
                     (''processed_proposals'', JArray [])])"
  using load_checkpoint_never_raises [of tiny_parser "Contents ''{''"]
  by (simp add: usable_def tiny_parser_def)

end
